theory Spec2Isabelle
  imports Main "HOL-Library.Word"
begin

unbundle bit_operations_syntax

section \<open>External module driver of the Horus targets\<close>

text \<open>
  A shallow embedding of \<^verbatim>\<open>radio/src/targets/horus/extmodule_driver.cpp\<close>.
  The driver is written against memory-mapped peripherals. Registers hold 32-bit words;
  a register file is a function from register names to words, and every store to a timer
  or DMA-stream register is also appended to a list of writes, so that the order of the
  stores of one call can be stated. Preprocessor conditions of the source are fields of a
  \<open>board\<close> record and are tested where the source has its \<^verbatim>\<open>#if\<close>.
\<close>

type_synonym u8 = "8 word"
type_synonym u16 = "16 word"
type_synonym u32 = "32 word"

subsection \<open>Register bits\<close>

text \<open>
  The bit masks come from the STM32F4 device header, which is not part of the driver
  file; they have the values of that header.
\<close>

definition TIM_CR1_CEN :: u32 where "TIM_CR1_CEN = 0x0001"
definition TIM_DIER_CC2IE :: u32 where "TIM_DIER_CC2IE = 0x0004"
definition TIM_DIER_UDE :: u32 where "TIM_DIER_UDE = 0x0100"
definition TIM_SR_CC2IF :: u32 where "TIM_SR_CC2IF = 0x0004"
definition TIM_CCER_CC1E :: u32 where "TIM_CCER_CC1E = 0x0001"
definition TIM_CCER_CC1P :: u32 where "TIM_CCER_CC1P = 0x0002"
definition TIM_CCER_CC1NE :: u32 where "TIM_CCER_CC1NE = 0x0004"
definition TIM_CCER_CC1NP :: u32 where "TIM_CCER_CC1NP = 0x0008"
definition TIM_CCER_CC3E :: u32 where "TIM_CCER_CC3E = 0x0100"
definition TIM_CCER_CC3P :: u32 where "TIM_CCER_CC3P = 0x0200"
definition TIM_CCER_CC3NE :: u32 where "TIM_CCER_CC3NE = 0x0400"
definition TIM_CCER_CC3NP :: u32 where "TIM_CCER_CC3NP = 0x0800"
definition TIM_CCMR1_OC1M_0 :: u32 where "TIM_CCMR1_OC1M_0 = 0x0010"
definition TIM_CCMR1_OC1M_1 :: u32 where "TIM_CCMR1_OC1M_1 = 0x0020"
definition TIM_CCMR1_OC1M_2 :: u32 where "TIM_CCMR1_OC1M_2 = 0x0040"
definition TIM_CCMR1_OC2PE :: u32 where "TIM_CCMR1_OC2PE = 0x0800"
definition TIM_CCMR2_OC3M_0 :: u32 where "TIM_CCMR2_OC3M_0 = 0x0010"
definition TIM_CCMR2_OC3M_1 :: u32 where "TIM_CCMR2_OC3M_1 = 0x0020"
definition TIM_CCMR2_OC3M_2 :: u32 where "TIM_CCMR2_OC3M_2 = 0x0040"
definition TIM_BDTR_MOE :: u32 where "TIM_BDTR_MOE = 0x8000"
definition TIM_PSCReloadMode_Immediate :: u32 where "TIM_PSCReloadMode_Immediate = 0x0001"

definition DMA_SxCR_EN :: u32 where "DMA_SxCR_EN = 0x00000001"
definition DMA_SxCR_TCIE :: u32 where "DMA_SxCR_TCIE = 0x00000010"
definition DMA_SxCR_DIR_0 :: u32 where "DMA_SxCR_DIR_0 = 0x00000040"
definition DMA_SxCR_MINC :: u32 where "DMA_SxCR_MINC = 0x00000400"
definition DMA_SxCR_PSIZE_0 :: u32 where "DMA_SxCR_PSIZE_0 = 0x00000800"
definition DMA_SxCR_MSIZE_0 :: u32 where "DMA_SxCR_MSIZE_0 = 0x00002000"
definition DMA_SxCR_PL_0 :: u32 where "DMA_SxCR_PL_0 = 0x00010000"
definition DMA_SxCR_PL_1 :: u32 where "DMA_SxCR_PL_1 = 0x00020000"

definition USART_FLAG_PE :: u32 where "USART_FLAG_PE = 0x0001"
definition USART_FLAG_FE :: u32 where "USART_FLAG_FE = 0x0002"
definition USART_FLAG_NE :: u32 where "USART_FLAG_NE = 0x0004"
definition USART_FLAG_ORE :: u32 where "USART_FLAG_ORE = 0x0008"
definition USART_FLAG_RXNE :: u32 where "USART_FLAG_RXNE = 0x0020"

definition USART_FLAG_ERRORS :: u32 where
  "USART_FLAG_ERRORS = (USART_FLAG_ORE OR USART_FLAG_NE OR USART_FLAG_FE OR USART_FLAG_PE)"

subsection \<open>Build configuration and inputs\<close>

text \<open>
  \<open>board\<close>: the preprocessor symbols the driver tests, and the board constants of the
  hardware abstraction header. \<open>PCBX10_or_PCBREV13\<close> stands for the condition
  \<^verbatim>\<open>defined(PCBX10) || PCBREV >= 13\<close>; \<open>ARR_address\<close> for
  \<^verbatim>\<open>CONVERT_PTR_UINT(&EXTMODULE_TIMER->ARR)\<close>.
\<close>

record board =
  PCBX10_or_PCBREV13 :: bool
  PCBNV14 :: bool
  PXX1 :: bool
  HARDWARE_EXTERNAL_MODULE_SIZE_SML :: bool
  PXX2 :: bool
  EXTMODULE_USART :: bool
  AFHDS3 :: bool
  EXTMODULE_TX_INVERT_GPIO :: bool
  DSM2 :: bool
  CROSSFIRE :: bool
  GHOST :: bool
  EXTMODULE_TIMER_FREQ :: u32
  EXTMODULE_TIMER_DMA_CHANNEL :: u32
  EXTMODULE_TIMER_DMA_SIZE :: u32
  EXTMODULE_TIMER_TX_GPIO_AF :: nat
  ARR_address :: u32

text \<open>
  The protocols the driver's switch names; \<open>PROTOCOL_CHANNELS_NONE\<close> stands for every
  other value of the enumeration (the \<^verbatim>\<open>default\<close> arm).
\<close>

datatype protocol =
    PROTOCOL_CHANNELS_NONE
  | PROTOCOL_CHANNELS_PPM
  | PROTOCOL_CHANNELS_PXX1_PULSES
  | PROTOCOL_CHANNELS_PXX1_SERIAL
  | PROTOCOL_CHANNELS_PXX2_HIGHSPEED
  | PROTOCOL_CHANNELS_PXX2_LOWSPEED
  | PROTOCOL_CHANNELS_AFHDS3
  | PROTOCOL_CHANNELS_SBUS
  | PROTOCOL_CHANNELS_DSM2_LP45
  | PROTOCOL_CHANNELS_DSM2_DSM2
  | PROTOCOL_CHANNELS_DSM2_DSMX
  | PROTOCOL_CHANNELS_MULTIMODULE
  | PROTOCOL_CHANNELS_CROSSFIRE
  | PROTOCOL_CHANNELS_GHOST

text \<open>
  What the driver reads from the model settings and from the pulse buffers the encoder
  filled: \<open>protocol\<close> is \<^verbatim>\<open>moduleState[EXTERNAL_MODULE].protocol\<close>,
  \<open>ppm_delay\<close> the value (a C \<^verbatim>\<open>int\<close>) of
  \<^verbatim>\<open>GET_MODULE_PPM_DELAY(EXTERNAL_MODULE)\<close>, \<open>ppm_polarity\<close> and
  \<open>sbus_polarity\<close> the truth values of the two polarity macros. A buffer is its address
  and its number of elements; \<open>ppm_last\<close> is the element read through
  \<^verbatim>\<open>*(extmodulePulsesData.ppm.ptr - 1)\<close>.
\<close>

record model =
  protocol :: protocol
  ppm_delay :: int
  ppm_polarity :: bool
  sbus_polarity :: bool
  ppm_pulses :: u32
  ppm_count :: u32
  ppm_last :: u32
  pxx_data :: u32
  pxx_size :: u32
  pxx_uart_data :: u32
  pxx_uart_size :: u8
  pxx2_data :: u32
  pxx2_size :: u8
  afhds3_data :: u32
  afhds3_size :: u32
  dsm2_pulses :: u32
  dsm2_count :: u32
  crossfire_pulses :: u32
  crossfire_length :: u8
  ghost_pulses :: u32
  ghost_length :: u8

subsection \<open>Hardware state\<close>

datatype tim_reg =
  CR1 | DIER | SR | EGR | CCMR1 | CCMR2 | CCER | PSC | ARR | CCR1 | CCR2 | CCR3 | BDTR

datatype dma_reg = CR | NDTR | PAR | M0AR

datatype irqn =
  EXTMODULE_TIMER_DMA_STREAM_IRQn | EXTMODULE_TIMER_CC_IRQn | EXTMODULE_USART_IRQn

datatype reg_write = TIM_W tim_reg u32 | DMA_W dma_reg u32

datatype GPIOMode = GPIO_Mode_IN | GPIO_Mode_OUT | GPIO_Mode_AF | GPIO_Mode_AN
datatype GPIOSpeed = GPIO_Speed_2MHz | GPIO_Speed_25MHz | GPIO_Speed_50MHz | GPIO_Speed_100MHz
datatype GPIOOType = GPIO_OType_PP | GPIO_OType_OD
datatype GPIOPuPd = GPIO_PuPd_NOPULL | GPIO_PuPd_UP | GPIO_PuPd_DOWN

text \<open>
  The initialisation structure handed to \<^verbatim>\<open>GPIO_Init\<close>. The timer paths of the
  driver always pass \<^verbatim>\<open>EXTMODULE_TX_GPIO_PIN\<close>, so the pin mask is not a field.
\<close>

record GPIO_InitTypeDef =
  GPIO_Mode :: GPIOMode
  GPIO_Speed :: GPIOSpeed
  GPIO_OType :: GPIOOType
  GPIO_PuPd :: GPIOPuPd

text \<open>
  \<open>tim\<close> is \<^verbatim>\<open>EXTMODULE_TIMER\<close>, \<open>dma\<close> is
  \<^verbatim>\<open>EXTMODULE_TIMER_DMA_STREAM\<close>, \<open>dma_tc_flag\<close> the transfer-complete flag of that
  stream in the DMA controller's status register. \<open>module_pwr\<close> is the level of the
  module's power line. \<open>usart_tx\<close> and \<open>sport_tx\<close> hold the buffer (address, size) last
  handed to \<^verbatim>\<open>extmoduleSendBuffer\<close> and \<^verbatim>\<open>sportSendBuffer\<close>.
  \<open>writes\<close> lists the stores to timer and DMA-stream registers, oldest first.
\<close>

record hw =
  module_pwr :: bool
  nvic_enabled :: "irqn \<Rightarrow> bool"
  nvic_priority :: "irqn \<Rightarrow> nat"
  tim :: "tim_reg \<Rightarrow> u32"
  dma :: "dma_reg \<Rightarrow> u32"
  dma_tc_flag :: bool
  tx_pin_cfg :: GPIO_InitTypeDef
  tx_pin_af :: nat
  usart_tx :: "(u32 \<times> u8) option"
  sport_tx :: "(u32 \<times> u8) option"
  writes :: "reg_write list"

definition tim_write :: "tim_reg \<Rightarrow> u32 \<Rightarrow> hw \<Rightarrow> hw" where
  "tim_write r v s = s\<lparr>tim := (tim s)(r := v), writes := writes s @ [TIM_W r v]\<rparr>"

definition dma_write :: "dma_reg \<Rightarrow> u32 \<Rightarrow> hw \<Rightarrow> hw" where
  "dma_write r v s = s\<lparr>dma := (dma s)(r := v), writes := writes s @ [DMA_W r v]\<rparr>"

text \<open>
  Modelled from the spec: the macros \<^verbatim>\<open>EXTERNAL_MODULE_ON\<close> and
  \<^verbatim>\<open>EXTERNAL_MODULE_OFF\<close> of the board header, which is not under the driver's
  sources; they power the module and disable ``the module's power/enable line''.
\<close>

definition EXTERNAL_MODULE_ON :: "hw \<Rightarrow> hw" where
  "EXTERNAL_MODULE_ON s = s\<lparr>module_pwr := True\<rparr>"

definition EXTERNAL_MODULE_OFF :: "hw \<Rightarrow> hw" where
  "EXTERNAL_MODULE_OFF s = s\<lparr>module_pwr := False\<rparr>"

text \<open>
  Modelled from the spec: the interrupt-controller calls of the processor header, which
  enable and mask (disable) one of the module's interrupts and set its priority.
\<close>

definition NVIC_EnableIRQ :: "irqn \<Rightarrow> hw \<Rightarrow> hw" where
  "NVIC_EnableIRQ n s = s\<lparr>nvic_enabled := (nvic_enabled s)(n := True)\<rparr>"

definition NVIC_DisableIRQ :: "irqn \<Rightarrow> hw \<Rightarrow> hw" where
  "NVIC_DisableIRQ n s = s\<lparr>nvic_enabled := (nvic_enabled s)(n := False)\<rparr>"

definition NVIC_SetPriority :: "irqn \<Rightarrow> nat \<Rightarrow> hw \<Rightarrow> hw" where
  "NVIC_SetPriority n p s = s\<lparr>nvic_priority := (nvic_priority s)(n := p)\<rparr>"

text \<open>
  Modelled from the spec: the two GPIO calls of the peripheral library, applied to the TX
  pin. \<^verbatim>\<open>GPIO_PinAFConfig\<close> selects the pin's alternate function,
  \<^verbatim>\<open>GPIO_Init\<close> sets its electrical mode (alternate function or plain output,
  push-pull or open drain, pull resistor, speed) from the structure it is given.
\<close>

definition GPIO_PinAFConfig :: "nat \<Rightarrow> hw \<Rightarrow> hw" where
  "GPIO_PinAFConfig af s = s\<lparr>tx_pin_af := af\<rparr>"

definition GPIO_Init :: "GPIO_InitTypeDef \<Rightarrow> hw \<Rightarrow> hw" where
  "GPIO_Init i s = s\<lparr>tx_pin_cfg := i\<rparr>"

subsection \<open>Stop and start\<close>

definition extmoduleStop :: "hw \<Rightarrow> hw" where
  "extmoduleStop s0 =
    (let s1 = EXTERNAL_MODULE_OFF s0;
         s2 = NVIC_DisableIRQ EXTMODULE_TIMER_DMA_STREAM_IRQn s1;
         s3 = NVIC_DisableIRQ EXTMODULE_TIMER_CC_IRQn s2;
         s4 = dma_write CR (dma s3 CR AND NOT DMA_SxCR_EN) s3;
         s5 = tim_write DIER (tim s4 DIER AND NOT (TIM_DIER_CC2IE OR TIM_DIER_UDE)) s4;
         s6 = tim_write CR1 (tim s5 CR1 AND NOT TIM_CR1_CEN) s5
     in GPIO_Init \<lparr>GPIO_Mode = GPIO_Mode_OUT, GPIO_Speed = GPIO_Speed_2MHz,
                    GPIO_OType = GPIO_OType_PP, GPIO_PuPd = GPIO_PuPd_NOPULL\<rparr> s6)"

text \<open>The pin set-up shared by the three timer start routines.\<close>

definition tx_pin_to_timer :: "board \<Rightarrow> hw \<Rightarrow> hw" where
  "tx_pin_to_timer b s0 =
    (let s1 = GPIO_PinAFConfig (EXTMODULE_TIMER_TX_GPIO_AF b) s0
     in GPIO_Init \<lparr>GPIO_Mode = GPIO_Mode_AF, GPIO_Speed = GPIO_Speed_2MHz,
                    GPIO_OType = GPIO_OType_PP, GPIO_PuPd = GPIO_PuPd_NOPULL\<rparr> s1)"

text \<open>The polarity bits of the PPM and SBUS paths, one alternative per \<^verbatim>\<open>#if\<close>.\<close>

definition ccer_with_polarity :: "board \<Rightarrow> bool \<Rightarrow> u32" where
  "ccer_with_polarity b pol =
    (if PCBX10_or_PCBREV13 b then TIM_CCER_CC3E OR (if pol then TIM_CCER_CC3P else 0)
     else if PCBNV14 b then TIM_CCER_CC1E OR (if pol then 0 else TIM_CCER_CC1P)
     else TIM_CCER_CC1E OR (if pol then TIM_CCER_CC1P else 0))"

definition extmodulePpmStart :: "board \<Rightarrow> model \<Rightarrow> hw \<Rightarrow> hw" where
  "extmodulePpmStart b m s0 =
    (let s1 = EXTERNAL_MODULE_ON s0;
         s2 = tx_pin_to_timer b s1;
         s3 = tim_write CR1 (tim s2 CR1 AND NOT TIM_CR1_CEN) s2;
         s4 = tim_write PSC (EXTMODULE_TIMER_FREQ b div 2000000 - 1) s3;
         s5 = (if PCBX10_or_PCBREV13 b then
                 (let t1 = tim_write CCR3 (word_of_int (ppm_delay m * 2)) s4;
                      t2 = tim_write CCER (ccer_with_polarity b (ppm_polarity m)) t1;
                      t3 = tim_write CCMR2 (TIM_CCMR2_OC3M_1 OR TIM_CCMR2_OC3M_0) t2;
                      t4 = tim_write BDTR TIM_BDTR_MOE t3;
                      t5 = tim_write EGR 1 t4
                  in tim_write CCMR2 (TIM_CCMR2_OC3M_1 OR TIM_CCMR2_OC3M_2) t5)
               else
                 (let t1 = tim_write CCR1 (word_of_int (ppm_delay m * 2)) s4;
                      t2 = tim_write CCER (ccer_with_polarity b (ppm_polarity m)) t1;
                      t3 = tim_write CCMR1 (TIM_CCMR1_OC1M_2 OR TIM_CCMR1_OC1M_0) t2;
                      t4 = tim_write EGR 1 t3
                  in tim_write CCMR1
                       (TIM_CCMR1_OC1M_1 OR TIM_CCMR1_OC1M_2 OR TIM_CCMR1_OC2PE) t4));
         s6 = tim_write ARR 45000 s5;
         s7 = tim_write CCR2 40000 s6;
         s8 = tim_write SR (tim s7 SR AND NOT TIM_SR_CC2IF) s7;
         s9 = tim_write DIER (tim s8 DIER OR (TIM_DIER_UDE OR TIM_DIER_CC2IE)) s8;
         s10 = tim_write CR1 TIM_CR1_CEN s9;
         s11 = NVIC_EnableIRQ EXTMODULE_TIMER_DMA_STREAM_IRQn s10;
         s12 = NVIC_SetPriority EXTMODULE_TIMER_DMA_STREAM_IRQn 7 s11;
         s13 = NVIC_EnableIRQ EXTMODULE_TIMER_CC_IRQn s12
     in NVIC_SetPriority EXTMODULE_TIMER_CC_IRQn 7 s13)"

text \<open>Compiled when \<^verbatim>\<open>PXX1\<close> is defined.\<close>

definition extmodulePxx1PulsesStart :: "board \<Rightarrow> hw \<Rightarrow> hw" where
  "extmodulePxx1PulsesStart b s0 =
    (let s1 = EXTERNAL_MODULE_ON s0;
         s2 = tx_pin_to_timer b s1;
         s3 = tim_write CR1 (tim s2 CR1 AND NOT TIM_CR1_CEN) s2;
         s4 = tim_write PSC (EXTMODULE_TIMER_FREQ b div 2000000 - 1) s3;
         s5 = (if PCBX10_or_PCBREV13 b then
                 (let t1 = tim_write CCR3 18 s4;
                      t2 = tim_write CCER
                             (TIM_CCER_CC3E OR TIM_CCER_CC3NE OR TIM_CCER_CC3P OR TIM_CCER_CC3NP) t1;
                      t3 = tim_write CCMR2 (TIM_CCMR2_OC3M_2 OR TIM_CCMR2_OC3M_0) t2;
                      t4 = tim_write BDTR TIM_BDTR_MOE t3;
                      t5 = tim_write EGR 1 t4
                  in tim_write CCMR2 (TIM_CCMR2_OC3M_1 OR TIM_CCMR2_OC3M_2) t5)
               else
                 (let t1 = tim_write CCR1 18 s4;
                      t2 = tim_write CCER
                             (TIM_CCER_CC1E OR (if PCBNV14 b then 0 else TIM_CCER_CC1P)
                                OR TIM_CCER_CC1NE OR TIM_CCER_CC1NP) t1;
                      t3 = tim_write CCMR1 (TIM_CCMR1_OC1M_2 OR TIM_CCMR1_OC1M_0) t2;
                      t4 = tim_write BDTR TIM_BDTR_MOE t3;
                      t5 = tim_write EGR 1 t4
                  in tim_write CCMR1 (TIM_CCMR1_OC1M_1 OR TIM_CCMR1_OC1M_2) t5));
         s6 = tim_write ARR 45000 s5;
         s7 = tim_write SR (tim s6 SR AND NOT TIM_SR_CC2IF) s6;
         s8 = tim_write DIER (tim s7 DIER OR TIM_DIER_UDE) s7;
         s9 = tim_write CR1 (tim s8 CR1 OR TIM_CR1_CEN) s8;
         s10 = NVIC_EnableIRQ EXTMODULE_TIMER_DMA_STREAM_IRQn s9;
         s11 = NVIC_SetPriority EXTMODULE_TIMER_DMA_STREAM_IRQn 7 s10;
         s12 = NVIC_EnableIRQ EXTMODULE_TIMER_CC_IRQn s11
     in NVIC_SetPriority EXTMODULE_TIMER_CC_IRQn 7 s12)"

subsection \<open>Requesting the next frame\<close>

text \<open>
  Modelled from the spec: the effect of the peripheral-library calls inside
  \<^verbatim>\<open>extmoduleSendBuffer\<close> (\<^verbatim>\<open>DMA_DeInit\<close>, \<^verbatim>\<open>DMA_Init\<close>,
  \<^verbatim>\<open>DMA_Cmd\<close>, \<^verbatim>\<open>USART_DMACmd\<close>) and of \<^verbatim>\<open>sportSendBuffer\<close> of
  the telemetry driver, none of which is under the driver's sources: ``bytes are pushed
  through the UART's own streaming engine; no timer reprogramming occurs''. The routine
  hands a byte buffer to the USART's transmit DMA stream and touches neither the timer nor
  the timer's DMA stream; the model records the buffer that was handed over.
\<close>

definition extmoduleSendBuffer :: "u32 \<Rightarrow> u8 \<Rightarrow> hw \<Rightarrow> hw" where
  "extmoduleSendBuffer data sz s = s\<lparr>usart_tx := Some (data, sz)\<rparr>"

definition sportSendBuffer :: "u32 \<Rightarrow> u8 \<Rightarrow> hw \<Rightarrow> hw" where
  "sportSendBuffer data sz s = s\<lparr>sport_tx := Some (data, sz)\<rparr>"

text \<open>The \<^verbatim>\<open>default\<close> arm; also the arm of a protocol whose case is compiled out.\<close>

definition sendNextFrame_default :: "hw \<Rightarrow> hw" where
  "sendNextFrame_default s0 = tim_write DIER (tim s0 DIER OR TIM_DIER_CC2IE) s0"

text \<open>The arm of \<^verbatim>\<open>PROTOCOL_CHANNELS_PPM\<close>; it tests no busy flag.\<close>

definition sendNextFrame_PPM :: "board \<Rightarrow> model \<Rightarrow> hw \<Rightarrow> hw" where
  "sendNextFrame_PPM b m s0 =
    (let s1 = tim_write (if PCBX10_or_PCBREV13 b then CCR3 else CCR1)
                (word_of_int (ppm_delay m * 2)) s0;
         s2 = tim_write CCER (ccer_with_polarity b (ppm_polarity m)) s1;
         s3 = tim_write CCR2 (ppm_last m - 4000) s2;
         s4 = dma_write CR (dma s3 CR AND NOT DMA_SxCR_EN) s3;
         s5 = dma_write CR
                (dma s4 CR OR (EXTMODULE_TIMER_DMA_CHANNEL b OR DMA_SxCR_DIR_0 OR DMA_SxCR_MINC
                   OR EXTMODULE_TIMER_DMA_SIZE b OR DMA_SxCR_PL_0 OR DMA_SxCR_PL_1)) s4;
         s6 = dma_write PAR (ARR_address b) s5;
         s7 = dma_write M0AR (ppm_pulses m) s6;
         s8 = dma_write NDTR (ppm_count m) s7
     in dma_write CR (dma s8 CR OR (DMA_SxCR_EN OR DMA_SxCR_TCIE)) s8)"

text \<open>The arm of \<^verbatim>\<open>PROTOCOL_CHANNELS_PXX1_PULSES\<close>.\<close>

definition sendNextFrame_PXX1_PULSES :: "board \<Rightarrow> model \<Rightarrow> hw \<Rightarrow> hw" where
  "sendNextFrame_PXX1_PULSES b m s0 =
    (if dma s0 CR AND DMA_SxCR_EN \<noteq> 0 then s0
     else
      (let s1 = tim_write CR1 (tim s0 CR1 AND NOT TIM_CR1_CEN) s0;
           s2 = dma_write CR
                  (dma s1 CR OR (EXTMODULE_TIMER_DMA_CHANNEL b OR DMA_SxCR_DIR_0 OR DMA_SxCR_MINC
                     OR EXTMODULE_TIMER_DMA_SIZE b OR DMA_SxCR_PL_0 OR DMA_SxCR_PL_1)) s1;
           s3 = dma_write PAR (ARR_address b) s2;
           s4 = dma_write M0AR (pxx_data m) s3;
           s5 = dma_write NDTR (pxx_size m) s4;
           s6 = dma_write CR (dma s5 CR OR (DMA_SxCR_EN OR DMA_SxCR_TCIE)) s5;
           s7 = tim_write EGR 1 s6
       in tim_write CR1 (tim s7 CR1 OR TIM_CR1_CEN) s7))"

text \<open>
  The arm of \<^verbatim>\<open>PROTOCOL_CHANNELS_AFHDS3\<close>: through the USART when the board has one
  with an inverter, through the timer otherwise.
\<close>

definition sendNextFrame_AFHDS3 :: "board \<Rightarrow> model \<Rightarrow> hw \<Rightarrow> hw" where
  "sendNextFrame_AFHDS3 b m s0 =
    (if EXTMODULE_USART b \<and> EXTMODULE_TX_INVERT_GPIO b then
       extmoduleSendBuffer (afhds3_data m) (ucast (afhds3_size m)) s0
     else if dma s0 CR AND DMA_SxCR_EN \<noteq> 0 then s0
     else
      (let s1 = dma_write CR (dma s0 CR AND NOT DMA_SxCR_EN) s0;
           s2 = dma_write CR
                  (dma s1 CR OR (EXTMODULE_TIMER_DMA_CHANNEL b OR DMA_SxCR_DIR_0 OR DMA_SxCR_MINC
                     OR DMA_SxCR_PSIZE_0 OR DMA_SxCR_MSIZE_0 OR DMA_SxCR_PL_0 OR DMA_SxCR_PL_1)) s1;
           s3 = dma_write PAR (ARR_address b) s2;
           s4 = dma_write M0AR (afhds3_data m) s3;
           s5 = dma_write NDTR (afhds3_size m) s4;
           s6 = dma_write CR (dma s5 CR OR (DMA_SxCR_EN OR DMA_SxCR_TCIE)) s5;
           s7 = tim_write EGR TIM_PSCReloadMode_Immediate s6
       in tim_write CR1 (tim s7 CR1 OR TIM_CR1_CEN) s7))"

text \<open>
  The shared arm of \<^verbatim>\<open>PROTOCOL_CHANNELS_SBUS\<close>, the three DSM2 protocols and
  \<^verbatim>\<open>PROTOCOL_CHANNELS_MULTIMODULE\<close>.
\<close>

definition sendNextFrame_DSM2 :: "board \<Rightarrow> model \<Rightarrow> hw \<Rightarrow> hw" where
  "sendNextFrame_DSM2 b m s0 =
    (if dma s0 CR AND DMA_SxCR_EN \<noteq> 0 then s0
     else
      (let s1 = (if PROTOCOL_CHANNELS_SBUS = protocol m
                 then tim_write CCER (ccer_with_polarity b (sbus_polarity m)) s0 else s0);
           s2 = tim_write CR1 (tim s1 CR1 AND NOT TIM_CR1_CEN) s1;
           s3 = dma_write CR (dma s2 CR AND NOT DMA_SxCR_EN) s2;
           s4 = dma_write CR
                  (dma s3 CR OR (EXTMODULE_TIMER_DMA_CHANNEL b OR DMA_SxCR_DIR_0 OR DMA_SxCR_MINC
                     OR EXTMODULE_TIMER_DMA_SIZE b OR DMA_SxCR_PL_0 OR DMA_SxCR_PL_1)) s3;
           s5 = dma_write PAR (ARR_address b) s4;
           s6 = dma_write M0AR (dsm2_pulses m) s5;
           s7 = dma_write NDTR (dsm2_count m) s6;
           s8 = dma_write CR (dma s7 CR OR (DMA_SxCR_EN OR DMA_SxCR_TCIE)) s7;
           s9 = tim_write EGR 1 s8
       in tim_write CR1 (tim s9 CR1 OR TIM_CR1_CEN) s9))"

definition extmoduleSendNextFrame :: "board \<Rightarrow> model \<Rightarrow> hw \<Rightarrow> hw" where
  "extmoduleSendNextFrame b m s0 =
    (case protocol m of
       PROTOCOL_CHANNELS_PPM \<Rightarrow> sendNextFrame_PPM b m s0
     | PROTOCOL_CHANNELS_PXX1_PULSES \<Rightarrow>
         if PXX1 b then sendNextFrame_PXX1_PULSES b m s0 else sendNextFrame_default s0
     | PROTOCOL_CHANNELS_PXX1_SERIAL \<Rightarrow>
         if PXX1 b \<and> HARDWARE_EXTERNAL_MODULE_SIZE_SML b
         then extmoduleSendBuffer (pxx_uart_data m) (pxx_uart_size m) s0
         else sendNextFrame_default s0
     | PROTOCOL_CHANNELS_PXX2_HIGHSPEED \<Rightarrow>
         if PXX2 b \<and> EXTMODULE_USART b
         then extmoduleSendBuffer (pxx2_data m) (pxx2_size m) s0
         else sendNextFrame_default s0
     | PROTOCOL_CHANNELS_PXX2_LOWSPEED \<Rightarrow>
         if PXX2 b \<and> EXTMODULE_USART b
         then extmoduleSendBuffer (pxx2_data m) (pxx2_size m) s0
         else sendNextFrame_default s0
     | PROTOCOL_CHANNELS_AFHDS3 \<Rightarrow>
         if AFHDS3 b then sendNextFrame_AFHDS3 b m s0 else sendNextFrame_default s0
     | PROTOCOL_CHANNELS_SBUS \<Rightarrow>
         if DSM2 b then sendNextFrame_DSM2 b m s0 else sendNextFrame_default s0
     | PROTOCOL_CHANNELS_DSM2_LP45 \<Rightarrow>
         if DSM2 b then sendNextFrame_DSM2 b m s0 else sendNextFrame_default s0
     | PROTOCOL_CHANNELS_DSM2_DSM2 \<Rightarrow>
         if DSM2 b then sendNextFrame_DSM2 b m s0 else sendNextFrame_default s0
     | PROTOCOL_CHANNELS_DSM2_DSMX \<Rightarrow>
         if DSM2 b then sendNextFrame_DSM2 b m s0 else sendNextFrame_default s0
     | PROTOCOL_CHANNELS_MULTIMODULE \<Rightarrow>
         if DSM2 b then sendNextFrame_DSM2 b m s0 else sendNextFrame_default s0
     | PROTOCOL_CHANNELS_CROSSFIRE \<Rightarrow>
         if CROSSFIRE b then sportSendBuffer (crossfire_pulses m) (crossfire_length m) s0
         else sendNextFrame_default s0
     | PROTOCOL_CHANNELS_GHOST \<Rightarrow>
         if GHOST b then sportSendBuffer (ghost_pulses m) (ghost_length m) s0
         else sendNextFrame_default s0
     | PROTOCOL_CHANNELS_NONE \<Rightarrow> sendNextFrame_default s0)"

subsection \<open>The transfer-complete interrupt of the timer's DMA stream\<close>

text \<open>
  Modelled from the spec: the two calls of the peripheral library that read and clear the
  stream's ``completion signal''. \<^verbatim>\<open>DMA_GetITStatus\<close> answers whether the
  transfer-complete flag is pending and its interrupt is enabled in the stream's control
  register; \<^verbatim>\<open>DMA_ClearITPendingBit\<close> clears the flag.
\<close>

definition DMA_GetITStatus_TC :: "hw \<Rightarrow> bool" where
  "DMA_GetITStatus_TC s = (dma_tc_flag s \<and> dma s CR AND DMA_SxCR_TCIE \<noteq> 0)"

definition DMA_ClearITPendingBit_TC :: "hw \<Rightarrow> hw" where
  "DMA_ClearITPendingBit_TC s = s\<lparr>dma_tc_flag := False\<rparr>"

definition EXTMODULE_TIMER_DMA_IRQHandler :: "model \<Rightarrow> hw \<Rightarrow> hw" where
  "EXTMODULE_TIMER_DMA_IRQHandler m s0 =
    (if \<not> DMA_GetITStatus_TC s0 then s0
     else
      (let s1 = DMA_ClearITPendingBit_TC s0
       in case protocol m of
            PROTOCOL_CHANNELS_PPM \<Rightarrow>
              (let s2 = tim_write SR (tim s1 SR AND NOT TIM_SR_CC2IF) s1
               in tim_write DIER (tim s2 DIER OR TIM_DIER_CC2IE) s2)
          | _ \<Rightarrow> s1))"

subsection \<open>The bit-banged inverted serial byte\<close>

text \<open>
  \<^verbatim>\<open>extmoduleSendInvertedByte\<close> drives the pin by hand and measures time by polling
  the free-running 2 MHz counter. The processor state it touches: the global interrupt
  enable, the level of the TX pin, and the counter. \<open>trace\<close> lists what the routine did
  to the pin and to the interrupt enable, each with the tick at which it happened, oldest
  first.

  Modelled from the spec: \<^verbatim>\<open>getTmr2MHz\<close>, \<^verbatim>\<open>__disable_irq\<close>,
  \<^verbatim>\<open>__enable_irq\<close>, \<^verbatim>\<open>GPIO_SetBits\<close> and \<^verbatim>\<open>GPIO_ResetBits\<close>, which
  are declared outside the driver's sources. The counter is ``a free-running 2
  MHz-equivalent tick counter'', here a ``simulated tick counter'': \<open>tmr2MHz\<close> counts
  ticks without bound and \<^verbatim>\<open>getTmr2MHz()\<close> reads its low 16 bits; a poll that finds
  the wait unfinished lets one tick pass, every other statement takes no time.
\<close>

datatype bb_event = Irq_disable | Irq_enable | Pin_high | Pin_low

record cpu =
  irq_enabled :: bool
  tx_level :: bool
  tmr2MHz :: nat
  trace :: "(nat \<times> bb_event) list"

definition getTmr2MHz :: "cpu \<Rightarrow> u16" where
  "getTmr2MHz s = of_nat (tmr2MHz s)"

definition disable_irq :: "cpu \<Rightarrow> cpu" where
  "disable_irq s = s\<lparr>irq_enabled := False, trace := trace s @ [(tmr2MHz s, Irq_disable)]\<rparr>"

definition enable_irq :: "cpu \<Rightarrow> cpu" where
  "enable_irq s = s\<lparr>irq_enabled := True, trace := trace s @ [(tmr2MHz s, Irq_enable)]\<rparr>"

definition GPIO_SetBits :: "cpu \<Rightarrow> cpu" where
  "GPIO_SetBits s = s\<lparr>tx_level := True, trace := trace s @ [(tmr2MHz s, Pin_high)]\<rparr>"

definition GPIO_ResetBits :: "cpu \<Rightarrow> cpu" where
  "GPIO_ResetBits s = s\<lparr>tx_level := False, trace := trace s @ [(tmr2MHz s, Pin_low)]\<rparr>"

text \<open>
  The busy-wait \<^verbatim>\<open>while ((uint16_t) (getTmr2MHz() - time) < n) { }\<close>. The difference
  is taken in 16 bits, so the wait is right across a wrap of the counter.
\<close>

function wait_ticks :: "u16 \<Rightarrow> u16 \<Rightarrow> cpu \<Rightarrow> cpu" where
  "wait_ticks time n s =
    (if getTmr2MHz s - time < n then wait_ticks time n (s\<lparr>tmr2MHz := tmr2MHz s + 1\<rparr>) else s)"
  by pat_completeness auto
termination
proof (relation "measure (\<lambda>(time, n, s). unat n - unat (getTmr2MHz s - time))", goal_cases)
  case 1
  show ?case by simp
next
  case (2 time n s)
  let ?d = "getTmr2MHz s - time"
  have lt: "unat ?d < unat n" using 2 by (simp add: word_less_nat_alt)
  have "unat n < 2 ^ 16" using unsigned_less [of n] by simp
  then have "unat ?d + 1 < 2 ^ 16" using lt by simp
  then have "unat (?d + 1) = unat ?d + 1"
    by (simp add: unat_word_ariths)
  moreover have "getTmr2MHz (s\<lparr>tmr2MHz := tmr2MHz s + 1\<rparr>) - time = ?d + 1"
    by (simp add: getTmr2MHz_def)
  ultimately have "unat (getTmr2MHz (s\<lparr>tmr2MHz := tmr2MHz s + 1\<rparr>) - time) = unat ?d + 1"
    by (simp only:)
  then show ?case using lt unfolding in_measure prod.case by linarith
qed

declare wait_ticks.simps [simp del]

text \<open>
  The loop \<^verbatim>\<open>for (i = 0; i < 8; i++)\<close> over the data bits; it returns the updated
  \<^verbatim>\<open>time\<close> with the state.
\<close>

function send_bits :: "nat \<Rightarrow> u8 \<Rightarrow> u16 \<Rightarrow> cpu \<Rightarrow> u16 \<times> cpu" where
  "send_bits i byte time s0 =
    (if i < 8 then
       (let s1 = (if byte AND 1 \<noteq> 0 then GPIO_ResetBits s0 else GPIO_SetBits s0);
            byte' = drop_bit 1 byte;
            s2 = wait_ticks time 35 s1
        in send_bits (i + 1) byte' (time + 35) s2)
     else (time, s0))"
  by pat_completeness auto
termination
  by (relation "measure (\<lambda>(i, byte, time, s). 8 - i)") auto

declare send_bits.simps [simp del]

definition extmoduleSendInvertedByte :: "u8 \<Rightarrow> cpu \<Rightarrow> cpu" where
  "extmoduleSendInvertedByte byte s0 =
    (let s1 = disable_irq s0;
         time = getTmr2MHz s1;
         s2 = GPIO_SetBits s1;
         s3 = wait_ticks time 34 s2;
         time1 = time + 34;
         (time2, s4) = send_bits 0 byte time1 s3;
         s5 = GPIO_ResetBits s4;
         s6 = enable_irq s5
     in wait_ticks time2 34 s6)"

text \<open>The level a data bit puts on the pin: the logic is inverted.\<close>

definition bit_event :: "bool \<Rightarrow> bb_event" where
  "bit_event b = (if b then Pin_low else Pin_high)"

subsection \<open>The USART receive interrupt\<close>

text \<open>
  \<^verbatim>\<open>ModuleFifo\<close> is declared outside the driver file. Its ring buffer is kept
  abstract (\<open>contents\<close>), and its \<^verbatim>\<open>push\<close> is a parameter of the handler; the
  \<^verbatim>\<open>errors\<close> member is the counter the handler increments itself.
\<close>

record 'f ModuleFifo =
  contents :: 'f
  errors :: u32

text \<open>
  Modelled from the spec: the receiver behind \<^verbatim>\<open>EXTMODULE_USART->SR\<close> and
  \<^verbatim>\<open>EXTMODULE_USART->DR\<close>, whose ``hardware reports a line error instead of valid
  data''. \<open>usart_rx\<close> is what the receiver will present: the status word and the data
  byte of each reception still to be read, oldest first. Reading the data register
  consumes the head; with nothing left the status register reads 0.
\<close>

record 'f usart =
  usart_rx :: "(u32 \<times> u8) list"
  extmoduleFifo :: "'f ModuleFifo"

definition USART_SR :: "'f usart \<Rightarrow> u32" where
  "USART_SR s = (case usart_rx s of [] \<Rightarrow> 0 | (status, data) # _ \<Rightarrow> status)"

definition USART_DR :: "'f usart \<Rightarrow> u8 \<times> 'f usart" where
  "USART_DR s =
    (case usart_rx s of [] \<Rightarrow> (0, s) | (status, data) # rest \<Rightarrow> (data, s\<lparr>usart_rx := rest\<rparr>))"

function usart_rx_loop :: "('f \<Rightarrow> u8 \<Rightarrow> 'f) \<Rightarrow> u32 \<Rightarrow> 'f usart \<Rightarrow> 'f usart" where
  "usart_rx_loop push status s0 =
    (if status AND (USART_FLAG_RXNE OR USART_FLAG_ERRORS) \<noteq> 0 then
       (let (data, s1) = USART_DR s0;
            s2 = (if status AND USART_FLAG_ERRORS \<noteq> 0
                  then s1\<lparr>extmoduleFifo :=
                         (extmoduleFifo s1)\<lparr>errors := errors (extmoduleFifo s1) + 1\<rparr>\<rparr>
                  else s1\<lparr>extmoduleFifo :=
                         (extmoduleFifo s1)\<lparr>contents := push (contents (extmoduleFifo s1)) data\<rparr>\<rparr>)
        in usart_rx_loop push (USART_SR s2) s2)
     else s0)"
  by pat_completeness auto
termination
proof (relation "measure (\<lambda>(push, status, s).
    2 * length (usart_rx s) +
    (if status AND (USART_FLAG_RXNE OR USART_FLAG_ERRORS) \<noteq> 0 then 1 else 0))", goal_cases)
  case 1
  show ?case by simp
next
  case (2 push status s0 x data s1 s2)
  then show ?case
    by (cases "usart_rx s0") (auto simp: USART_DR_def USART_SR_def split: if_splits)
qed

declare usart_rx_loop.simps [simp del]

definition EXTMODULE_USART_IRQHandler :: "('f \<Rightarrow> u8 \<Rightarrow> 'f) \<Rightarrow> 'f usart \<Rightarrow> 'f usart" where
  "EXTMODULE_USART_IRQHandler push s0 = usart_rx_loop push (USART_SR s0) s0"

subsection \<open>Reading what a call did\<close>

text \<open>
  What one call of the bit-banged routine added to the trace, and its projections to the
  edges on the pin and to the changes of the interrupt enable.
\<close>

definition pin_events :: "(nat \<times> bb_event) list \<Rightarrow> (nat \<times> bb_event) list" where
  "pin_events tr = filter (\<lambda>(t, e). e = Pin_high \<or> e = Pin_low) tr"

definition irq_events :: "(nat \<times> bb_event) list \<Rightarrow> (nat \<times> bb_event) list" where
  "irq_events tr = filter (\<lambda>(t, e). e = Irq_disable \<or> e = Irq_enable) tr"

definition new_trace :: "cpu \<Rightarrow> cpu \<Rightarrow> (nat \<times> bb_event) list" where
  "new_trace s s' = drop (length (trace s)) (trace s')"

text \<open>
  The register stores one call of a timer routine added, and the test for a store that
  sets an output-compare mode (\<^verbatim>\<open>CCMR1\<close>, \<^verbatim>\<open>CCMR2\<close>) or raises the
  update event (\<^verbatim>\<open>EGR\<close>).
\<close>

definition new_writes :: "hw \<Rightarrow> hw \<Rightarrow> reg_write list" where
  "new_writes s s' = drop (length (writes s)) (writes s')"

definition mode_or_reload :: "reg_write \<Rightarrow> bool" where
  "mode_or_reload w =
    (case w of TIM_W r v \<Rightarrow> r = CCMR1 \<or> r = CCMR2 \<or> r = EGR | DMA_W r v \<Rightarrow> False)"

text \<open>
  The compare register that holds the PPM pulse delay and the polarity bit of the PPM
  output channel: channel 3 where \<open>PCBX10_or_PCBREV13\<close> holds, channel 1 elsewhere.
\<close>

definition ppm_delay_reg :: "board \<Rightarrow> tim_reg" where
  "ppm_delay_reg b = (if PCBX10_or_PCBREV13 b then CCR3 else CCR1)"

definition ppm_polarity_bit :: "board \<Rightarrow> u32" where
  "ppm_polarity_bit b = (if PCBX10_or_PCBREV13 b then TIM_CCER_CC3P else TIM_CCER_CC1P)"

text \<open>
  A reception the receive handler takes (some flag it tests is set), one it counts as a line
  error, and one it pushes.
\<close>

definition rx_flagged :: "u32 \<times> u8 \<Rightarrow> bool" where
  "rx_flagged r = (fst r AND (USART_FLAG_RXNE OR USART_FLAG_ERRORS) \<noteq> 0)"

definition rx_line_error :: "u32 \<times> u8 \<Rightarrow> bool" where
  "rx_line_error r = (fst r AND USART_FLAG_ERRORS \<noteq> 0)"

definition rx_valid :: "u32 \<times> u8 \<Rightarrow> bool" where
  "rx_valid r = (fst r AND USART_FLAG_ERRORS = 0)"

subsection \<open>Example inputs\<close>

text \<open>
  Concrete inputs for the closed theorems below: the state after reset, a state with a
  transfer of the timer's DMA stream in flight, a board without \<open>PCBX10_or_PCBREV13\<close>
  and \<open>PCBNV14\<close> that compiles every protocol, and model settings with a PPM delay of
  300 and a last PPM period of 9000 ticks.
\<close>

definition hw_reset :: hw where
  "hw_reset =
    \<lparr>module_pwr = False, nvic_enabled = (\<lambda>_. False), nvic_priority = (\<lambda>_. 0),
     tim = (\<lambda>_. 0), dma = (\<lambda>_. 0), dma_tc_flag = False,
     tx_pin_cfg = \<lparr>GPIO_Mode = GPIO_Mode_IN, GPIO_Speed = GPIO_Speed_2MHz,
                   GPIO_OType = GPIO_OType_PP, GPIO_PuPd = GPIO_PuPd_NOPULL\<rparr>,
     tx_pin_af = 0, usart_tx = None, sport_tx = None, writes = []\<rparr>"

definition hw_busy :: hw where
  "hw_busy = hw_reset\<lparr>dma := (\<lambda>_. 0)(CR := DMA_SxCR_EN OR DMA_SxCR_TCIE)\<rparr>"

definition example_board :: board where
  "example_board =
    \<lparr>PCBX10_or_PCBREV13 = False, PCBNV14 = False, PXX1 = True,
     HARDWARE_EXTERNAL_MODULE_SIZE_SML = False, PXX2 = True, EXTMODULE_USART = True,
     AFHDS3 = True, EXTMODULE_TX_INVERT_GPIO = False, DSM2 = True, CROSSFIRE = True,
     GHOST = True, EXTMODULE_TIMER_FREQ = 216000000, EXTMODULE_TIMER_DMA_CHANNEL = 0x0C000000,
     EXTMODULE_TIMER_DMA_SIZE = 0x2800, EXTMODULE_TIMER_TX_GPIO_AF = 1,
     ARR_address = 0x4001002C\<rparr>"

definition example_model :: model where
  "example_model =
    \<lparr>protocol = PROTOCOL_CHANNELS_PPM, ppm_delay = 300, ppm_polarity = True,
     sbus_polarity = False, ppm_pulses = 0x20000000, ppm_count = 9, ppm_last = 9000,
     pxx_data = 0x20000100, pxx_size = 40, pxx_uart_data = 0x20000200, pxx_uart_size = 20,
     pxx2_data = 0x20000300, pxx2_size = 30, afhds3_data = 0x20000400, afhds3_size = 50,
     dsm2_pulses = 0x20000500, dsm2_count = 60, crossfire_pulses = 0x20000600,
     crossfire_length = 26, ghost_pulses = 0x20000700, ghost_length = 14\<rparr>"

section \<open>Properties\<close>

subsection \<open>Register stores\<close>

lemmas bits =
  TIM_CR1_CEN_def TIM_DIER_CC2IE_def TIM_DIER_UDE_def TIM_SR_CC2IF_def
  TIM_CCER_CC1E_def TIM_CCER_CC1P_def TIM_CCER_CC1NE_def TIM_CCER_CC1NP_def
  TIM_CCER_CC3E_def TIM_CCER_CC3P_def TIM_CCER_CC3NE_def TIM_CCER_CC3NP_def
  TIM_CCMR1_OC1M_0_def TIM_CCMR1_OC1M_1_def TIM_CCMR1_OC1M_2_def TIM_CCMR1_OC2PE_def
  TIM_CCMR2_OC3M_0_def TIM_CCMR2_OC3M_1_def TIM_CCMR2_OC3M_2_def TIM_BDTR_MOE_def
  TIM_PSCReloadMode_Immediate_def
  DMA_SxCR_EN_def DMA_SxCR_TCIE_def DMA_SxCR_DIR_0_def DMA_SxCR_MINC_def
  DMA_SxCR_PSIZE_0_def DMA_SxCR_MSIZE_0_def DMA_SxCR_PL_0_def DMA_SxCR_PL_1_def

lemmas prims =
  tim_write_def dma_write_def EXTERNAL_MODULE_ON_def EXTERNAL_MODULE_OFF_def
  NVIC_EnableIRQ_def NVIC_DisableIRQ_def NVIC_SetPriority_def GPIO_PinAFConfig_def
  GPIO_Init_def tx_pin_to_timer_def

lemma and_not_and [simp]: "(x AND NOT m) AND m = 0" for x :: u32
  by (simp add: and.assoc)

lemma and_not_not_and_or [simp]: "x AND NOT a AND NOT b AND (a OR b) = 0" for x :: u32
  by (rule bit_eqI) (auto simp add: bit_simps)

lemmas frames =
  extmoduleSendNextFrame_def sendNextFrame_PPM_def sendNextFrame_PXX1_PULSES_def
  sendNextFrame_AFHDS3_def sendNextFrame_DSM2_def sendNextFrame_default_def
  extmoduleSendBuffer_def sportSendBuffer_def

lemma writes_tim_write [simp]: "writes (tim_write r v s) = writes s @ [TIM_W r v]"
  by (simp add: tim_write_def)

lemma writes_dma_write [simp]: "writes (dma_write r v s) = writes s @ [DMA_W r v]"
  by (simp add: dma_write_def)

lemma tim_tim_write [simp]: "tim (tim_write r v s) = (tim s)(r := v)"
  by (simp add: tim_write_def)

lemma tim_dma_write [simp]: "tim (dma_write r v s) = tim s"
  by (simp add: dma_write_def)

lemma dma_dma_write [simp]: "dma (dma_write r v s) = (dma s)(r := v)"
  by (simp add: dma_write_def)

lemma dma_tim_write [simp]: "dma (tim_write r v s) = dma s"
  by (simp add: tim_write_def)

subsection \<open>Stopping the module\<close>

text \<open>
  Claim C6. From every state, \<^verbatim>\<open>extmoduleStop\<close> leaves the module's power off,
  the DMA-stream and capture-compare interrupts of the module disabled in the interrupt
  controller and the timer's CC2 and update-DMA requests masked, the DMA stream's enable bit
  clear, the timer's counter-enable bit clear, and the TX pin configured as a push-pull
  output without pull resistor, so the pin is driven. Calling it a second time changes no
  register, flag or pin setting: the second call stores again the values already there.
\<close>

theorem extmoduleStop_idle_idempotent:
  "\<not> module_pwr (extmoduleStop s)
   \<and> \<not> nvic_enabled (extmoduleStop s) EXTMODULE_TIMER_DMA_STREAM_IRQn
   \<and> \<not> nvic_enabled (extmoduleStop s) EXTMODULE_TIMER_CC_IRQn
   \<and> tim (extmoduleStop s) DIER AND (TIM_DIER_CC2IE OR TIM_DIER_UDE) = 0
   \<and> dma (extmoduleStop s) CR AND DMA_SxCR_EN = 0
   \<and> tim (extmoduleStop s) CR1 AND TIM_CR1_CEN = 0
   \<and> tx_pin_cfg (extmoduleStop s) =
       \<lparr>GPIO_Mode = GPIO_Mode_OUT, GPIO_Speed = GPIO_Speed_2MHz,
        GPIO_OType = GPIO_OType_PP, GPIO_PuPd = GPIO_PuPd_NOPULL\<rparr>
   \<and> (extmoduleStop (extmoduleStop s))\<lparr>writes := w\<rparr> = (extmoduleStop s)\<lparr>writes := w\<rparr>"
  by (simp add: extmoduleStop_def Let_def prims and.assoc)

subsection \<open>Requesting a frame while a transfer is in flight\<close>

text \<open>
  Claim C1, as amended. When the enable bit of the timer's DMA stream is set,
  \<^verbatim>\<open>extmoduleSendNextFrame\<close> returns without writing anything for the protocols
  whose arm tests that bit: PXX1 pulses, AFHDS3 where it is sent through the timer, and
  SBUS, the DSM2 protocols and the multi-protocol module, each where the build compiles
  its arm.
\<close>

theorem extmoduleSendNextFrame_busy_noop:
  assumes "dma s CR AND DMA_SxCR_EN \<noteq> 0"
    and "(PXX1 b \<and> protocol m = PROTOCOL_CHANNELS_PXX1_PULSES)
       \<or> (AFHDS3 b \<and> \<not> (EXTMODULE_USART b \<and> EXTMODULE_TX_INVERT_GPIO b)
            \<and> protocol m = PROTOCOL_CHANNELS_AFHDS3)
       \<or> (DSM2 b \<and> (protocol m = PROTOCOL_CHANNELS_SBUS
            \<or> protocol m = PROTOCOL_CHANNELS_DSM2_LP45
            \<or> protocol m = PROTOCOL_CHANNELS_DSM2_DSM2
            \<or> protocol m = PROTOCOL_CHANNELS_DSM2_DSMX
            \<or> protocol m = PROTOCOL_CHANNELS_MULTIMODULE))"
  shows "extmoduleSendNextFrame b m s = s"
  using assms
  by (auto simp add: extmoduleSendNextFrame_def sendNextFrame_PXX1_PULSES_def
      sendNextFrame_AFHDS3_def sendNextFrame_DSM2_def)

theorem extmoduleSendNextFrame_busy_noop_witness:
  "extmoduleSendNextFrame example_board
     (example_model\<lparr>protocol := PROTOCOL_CHANNELS_PXX1_PULSES\<rparr>) hw_busy = hw_busy
   \<and> extmoduleSendNextFrame example_board
     (example_model\<lparr>protocol := PROTOCOL_CHANNELS_AFHDS3\<rparr>) hw_busy = hw_busy
   \<and> extmoduleSendNextFrame example_board
     (example_model\<lparr>protocol := PROTOCOL_CHANNELS_SBUS\<rparr>) hw_busy = hw_busy"
proof -
  have busy: "dma hw_busy CR AND DMA_SxCR_EN \<noteq> 0"
    by (simp add: hw_busy_def hw_reset_def bits)
  show ?thesis
    using extmoduleSendNextFrame_busy_noop [OF busy, of example_board
        "example_model\<lparr>protocol := PROTOCOL_CHANNELS_PXX1_PULSES\<rparr>"]
      extmoduleSendNextFrame_busy_noop [OF busy, of example_board
        "example_model\<lparr>protocol := PROTOCOL_CHANNELS_AFHDS3\<rparr>"]
      extmoduleSendNextFrame_busy_noop [OF busy, of example_board
        "example_model\<lparr>protocol := PROTOCOL_CHANNELS_SBUS\<rparr>"]
    by (simp add: example_board_def example_model_def)
qed

text \<open>
  The claim as stated, for every protocol, fails for PPM: its arm tests no busy flag. With
  the stream enabled it still stores the next re-arm compare value and reprograms the
  stream.
\<close>

theorem extmoduleSendNextFrame_PPM_busy_writes:
  "dma hw_busy CR AND DMA_SxCR_EN \<noteq> 0
   \<and> tim hw_busy CCR2 = 0
   \<and> tim (extmoduleSendNextFrame example_board example_model hw_busy) CCR2 = 5000
   \<and> dma hw_busy NDTR = 0
   \<and> dma (extmoduleSendNextFrame example_board example_model hw_busy) NDTR = 9"
  by (simp add: frames prims Let_def example_board_def example_model_def hw_busy_def
      hw_reset_def bits)

subsection \<open>Reprogramming the timer for PXX1 pulses\<close>

lemma Pxx1PulsesStart_new_writes:
  "new_writes s (extmodulePxx1PulsesStart b s) =
    [TIM_W CR1 (tim s CR1 AND NOT TIM_CR1_CEN),
     TIM_W PSC (EXTMODULE_TIMER_FREQ b div 2000000 - 1),
     TIM_W (if PCBX10_or_PCBREV13 b then CCR3 else CCR1) 18,
     TIM_W CCER (if PCBX10_or_PCBREV13 b then 0xF00 else if PCBNV14 b then 0xD else 0xF),
     TIM_W (if PCBX10_or_PCBREV13 b then CCMR2 else CCMR1) 0x50,
     TIM_W BDTR 0x8000,
     TIM_W EGR 1,
     TIM_W (if PCBX10_or_PCBREV13 b then CCMR2 else CCMR1) 0x60,
     TIM_W ARR 45000,
     TIM_W SR (tim s SR AND NOT TIM_SR_CC2IF),
     TIM_W DIER (tim s DIER OR TIM_DIER_UDE),
     TIM_W CR1 (tim s CR1 AND NOT TIM_CR1_CEN OR TIM_CR1_CEN)]"
  by (simp add: extmodulePxx1PulsesStart_def new_writes_def Let_def
      EXTERNAL_MODULE_ON_def NVIC_EnableIRQ_def NVIC_SetPriority_def GPIO_PinAFConfig_def
      GPIO_Init_def tx_pin_to_timer_def
      TIM_CCER_CC1E_def TIM_CCER_CC1P_def TIM_CCER_CC1NE_def TIM_CCER_CC1NP_def
      TIM_CCER_CC3E_def TIM_CCER_CC3P_def TIM_CCER_CC3NE_def TIM_CCER_CC3NP_def
      TIM_CCMR1_OC1M_0_def TIM_CCMR1_OC1M_1_def TIM_CCMR1_OC1M_2_def
      TIM_CCMR2_OC3M_0_def TIM_CCMR2_OC3M_1_def TIM_CCMR2_OC3M_2_def TIM_BDTR_MOE_def)

lemma PXX1_PULSES_new_writes:
  "dma s CR AND DMA_SxCR_EN = 0 \<Longrightarrow>
   new_writes s (sendNextFrame_PXX1_PULSES b m s) =
    [TIM_W CR1 (tim s CR1 AND NOT TIM_CR1_CEN),
     DMA_W CR (dma s CR OR (EXTMODULE_TIMER_DMA_CHANNEL b OR DMA_SxCR_DIR_0 OR DMA_SxCR_MINC
        OR EXTMODULE_TIMER_DMA_SIZE b OR DMA_SxCR_PL_0 OR DMA_SxCR_PL_1)),
     DMA_W PAR (ARR_address b),
     DMA_W M0AR (pxx_data m),
     DMA_W NDTR (pxx_size m),
     DMA_W CR (dma s CR OR (EXTMODULE_TIMER_DMA_CHANNEL b OR DMA_SxCR_DIR_0 OR DMA_SxCR_MINC
        OR EXTMODULE_TIMER_DMA_SIZE b OR DMA_SxCR_PL_0 OR DMA_SxCR_PL_1)
        OR (DMA_SxCR_EN OR DMA_SxCR_TCIE)),
     TIM_W EGR 1,
     TIM_W CR1 (tim s CR1 AND NOT TIM_CR1_CEN OR TIM_CR1_CEN)]"
  by (simp add: sendNextFrame_PXX1_PULSES_def new_writes_def Let_def or.assoc)

text \<open>
  Claim C2, as amended. \<^verbatim>\<open>extmodulePxx1PulsesStart\<close> reprograms the timer in
  this order: it stores the force-active output-compare mode (\<open>0x50\<close>), then raises
  the update event through \<^verbatim>\<open>EGR\<close>, then stores PWM mode 1 (\<open>0x60\<close>); no other
  store to a mode register or to \<^verbatim>\<open>EGR\<close> happens. The per-frame re-arm of
  \<^verbatim>\<open>extmoduleSendNextFrame\<close> stores no output-compare mode at all: of these
  registers it writes \<^verbatim>\<open>EGR\<close> only, once.
\<close>

theorem Pxx1_timer_reprogramming:
  "filter mode_or_reload (new_writes s (extmodulePxx1PulsesStart b s)) =
     [TIM_W (if PCBX10_or_PCBREV13 b then CCMR2 else CCMR1) 0x50,
      TIM_W EGR 1,
      TIM_W (if PCBX10_or_PCBREV13 b then CCMR2 else CCMR1) 0x60]
   \<and> (PXX1 b \<and> protocol m = PROTOCOL_CHANNELS_PXX1_PULSES \<and> dma s CR AND DMA_SxCR_EN = 0
        \<longrightarrow> filter mode_or_reload (new_writes s (extmoduleSendNextFrame b m s)) =
              [TIM_W EGR 1])"
  unfolding Pxx1PulsesStart_new_writes
  by (simp add: extmoduleSendNextFrame_def PXX1_PULSES_new_writes mode_or_reload_def)

theorem Pxx1_timer_reprogramming_witness:
  "filter mode_or_reload (new_writes hw_reset
      (extmoduleSendNextFrame example_board
        (example_model\<lparr>protocol := PROTOCOL_CHANNELS_PXX1_PULSES\<rparr>) hw_reset)) =
     [TIM_W EGR 1]"
  using Pxx1_timer_reprogramming [of hw_reset example_board
      "example_model\<lparr>protocol := PROTOCOL_CHANNELS_PXX1_PULSES\<rparr>"]
  by (simp add: example_board_def example_model_def hw_reset_def)

text \<open>
  The claim as stated, for the per-frame re-arm too, fails: the stores of one re-arm from
  the reset state are listed below, and no force-high store is among them.
\<close>

theorem Pxx1_rearm_no_mode_write:
  "writes (extmoduleSendNextFrame example_board
      (example_model\<lparr>protocol := PROTOCOL_CHANNELS_PXX1_PULSES\<rparr>) hw_reset) =
     [TIM_W CR1 0, DMA_W CR 0x0C032C40, DMA_W PAR 0x4001002C, DMA_W M0AR 0x20000100,
      DMA_W NDTR 40, DMA_W CR 0x0C032C51, TIM_W EGR 1, TIM_W CR1 1]
   \<and> TIM_W CCMR1 0x50 \<notin> set (writes (extmoduleSendNextFrame example_board
      (example_model\<lparr>protocol := PROTOCOL_CHANNELS_PXX1_PULSES\<rparr>) hw_reset))
   \<and> TIM_W CCMR2 0x50 \<notin> set (writes (extmoduleSendNextFrame example_board
      (example_model\<lparr>protocol := PROTOCOL_CHANNELS_PXX1_PULSES\<rparr>) hw_reset))"
  by (simp add: frames Let_def example_board_def example_model_def hw_reset_def bits)

subsection \<open>PPM delay, polarity and re-arm\<close>

lemma ccer_polarity_bit:
  "(ccer_with_polarity b pol AND ppm_polarity_bit b \<noteq> 0) =
   (if PCBNV14 b \<and> \<not> PCBX10_or_PCBREV13 b then \<not> pol else pol)"
  by (simp add: ccer_with_polarity_def ppm_polarity_bit_def TIM_CCER_CC1E_def TIM_CCER_CC1P_def
      TIM_CCER_CC3E_def TIM_CCER_CC3P_def)

lemma PpmStart_regs:
  "tim (extmodulePpmStart b m s) (ppm_delay_reg b) = word_of_int (ppm_delay m * 2)"
  "tim (extmodulePpmStart b m s) CCER = ccer_with_polarity b (ppm_polarity m)"
  by (simp_all add: extmodulePpmStart_def Let_def ppm_delay_reg_def
      EXTERNAL_MODULE_ON_def NVIC_EnableIRQ_def NVIC_SetPriority_def GPIO_PinAFConfig_def
      GPIO_Init_def tx_pin_to_timer_def)

lemma sendNextFrame_PPM_regs:
  "tim (sendNextFrame_PPM b m s) (ppm_delay_reg b) = word_of_int (ppm_delay m * 2)"
  "tim (sendNextFrame_PPM b m s) CCER = ccer_with_polarity b (ppm_polarity m)"
  "tim (sendNextFrame_PPM b m s) CCR2 = ppm_last m - 4000"
  by (simp_all add: sendNextFrame_PPM_def Let_def ppm_delay_reg_def)

lemma uint_twice: "0 \<le> d \<Longrightarrow> d < 2 ^ 31 \<Longrightarrow> uint (word_of_int d * 2 :: u32) = d * 2"
proof -
  assume d: "0 \<le> d" "d < 2 ^ 31"
  have "word_of_int d * 2 = (word_of_int (d * 2) :: u32)" by simp
  moreover have "uint (word_of_int (d * 2) :: u32) = (d * 2) mod 2 ^ 32"
    by (simp only: uint_word_of_int) simp
  ultimately show ?thesis using d by simp
qed

text \<open>
  Claim C3, as amended. After \<^verbatim>\<open>extmodulePpmStart\<close>, and after
  \<^verbatim>\<open>extmoduleSendNextFrame\<close> with the PPM protocol, the compare register of the
  pulse delay holds twice the configured delay \<open>D\<close> (as a 32-bit value; exactly
  \<open>2 * D\<close> for \<open>0 \<le> D < 2 ^ 31\<close>). The polarity bit stored in the capture-compare
  enable register equals the configured polarity, except on a \<open>PCBNV14\<close> build without
  \<open>PCBX10_or_PCBREV13\<close>, where it is the complement of the configured polarity.
\<close>

theorem ppm_delay_and_polarity:
  assumes "s' = extmodulePpmStart b m s
     \<or> (protocol m = PROTOCOL_CHANNELS_PPM \<and> s' = extmoduleSendNextFrame b m s)"
  shows "tim s' (ppm_delay_reg b) = word_of_int (2 * ppm_delay m)
    \<and> (0 \<le> ppm_delay m \<and> ppm_delay m < 2 ^ 31
         \<longrightarrow> uint (tim s' (ppm_delay_reg b)) = 2 * ppm_delay m)
    \<and> (tim s' CCER AND ppm_polarity_bit b \<noteq> 0) =
        (if PCBNV14 b \<and> \<not> PCBX10_or_PCBREV13 b then \<not> ppm_polarity m else ppm_polarity m)"
proof -
  have regs: "tim s' (ppm_delay_reg b) = word_of_int (ppm_delay m * 2)"
             "tim s' CCER = ccer_with_polarity b (ppm_polarity m)"
    using assms
    by (auto simp add: PpmStart_regs sendNextFrame_PPM_regs extmoduleSendNextFrame_def)
  show ?thesis
    unfolding regs ccer_polarity_bit
    by (simp add: uint_twice mult.commute)
qed

theorem ppm_delay_and_polarity_witness:
  "uint (tim (extmodulePpmStart example_board example_model hw_reset) CCR1) = 600
   \<and> tim (extmodulePpmStart example_board example_model hw_reset) CCER AND TIM_CCER_CC1P \<noteq> 0
   \<and> uint (tim (extmoduleSendNextFrame example_board example_model hw_reset) CCR1) = 600
   \<and> tim (extmoduleSendNextFrame example_board example_model hw_reset) CCER
        AND TIM_CCER_CC1P \<noteq> 0"
  using ppm_delay_and_polarity [of "extmodulePpmStart example_board example_model hw_reset"
      example_board example_model hw_reset]
    ppm_delay_and_polarity [of "extmoduleSendNextFrame example_board example_model hw_reset"
      example_board example_model hw_reset]
  by (simp add: example_board_def example_model_def ppm_delay_reg_def ppm_polarity_bit_def)

text \<open>
  The claim as stated, for every build, fails on \<open>PCBNV14\<close>: with the polarity
  input set the polarity bit of channel 1 is stored clear.
\<close>

theorem ppm_polarity_inverted_on_NV14:
  "ppm_polarity example_model
   \<and> tim (extmodulePpmStart (example_board\<lparr>PCBNV14 := True\<rparr>) example_model hw_reset) CCER
       AND TIM_CCER_CC1P = 0
   \<and> tim (extmoduleSendNextFrame (example_board\<lparr>PCBNV14 := True\<rparr>) example_model hw_reset)
       CCER AND TIM_CCER_CC1P = 0"
  by (simp add: PpmStart_regs sendNextFrame_PPM_regs extmoduleSendNextFrame_def ccer_with_polarity_def
      example_board_def example_model_def TIM_CCER_CC1E_def TIM_CCER_CC1P_def)

text \<open>
  Claim C5, as amended. In the PPM arm of \<^verbatim>\<open>extmoduleSendNextFrame\<close> the
  compare value that schedules the re-arm interrupt is the last period of the frame minus
  4000 ticks, computed in 32 bits. When that period is at least 4000 ticks, the compare
  value is exactly 4000 ticks below it, hence strictly before the frame boundary.
\<close>

theorem ppm_rearm_compare:
  assumes "protocol m = PROTOCOL_CHANNELS_PPM"
  shows "tim (extmoduleSendNextFrame b m s) CCR2 = ppm_last m - 4000
    \<and> (4000 \<le> ppm_last m \<longrightarrow>
          tim (extmoduleSendNextFrame b m s) CCR2 < ppm_last m
          \<and> unat (tim (extmoduleSendNextFrame b m s) CCR2) + 4000 = unat (ppm_last m))"
proof -
  have r: "tim (extmoduleSendNextFrame b m s) CCR2 = ppm_last m - 4000"
    using assms by (simp add: extmoduleSendNextFrame_def sendNextFrame_PPM_regs)
  have "unat (ppm_last m - 4000) + 4000 = unat (ppm_last m)" if "4000 \<le> ppm_last m"
    using that by (simp add: unat_sub word_le_nat_alt)
  moreover have "ppm_last m - 4000 < ppm_last m" if "4000 \<le> ppm_last m"
    using that by (simp add: word_less_nat_alt unat_sub word_le_nat_alt)
  ultimately show ?thesis unfolding r by simp
qed

theorem ppm_rearm_compare_witness:
  "tim (extmoduleSendNextFrame example_board example_model hw_reset) CCR2 = 5000
   \<and> tim (extmoduleSendNextFrame example_board example_model hw_reset) CCR2
       < ppm_last example_model"
proof -
  have p: "protocol example_model = PROTOCOL_CHANNELS_PPM" by (simp add: example_model_def)
  show ?thesis
    using ppm_rearm_compare [OF p, of example_board hw_reset]
    by (simp add: example_model_def)
qed

text \<open>
  The claim as stated, for every period, fails below the margin: for a last period of 100
  ticks the subtraction wraps around and the compare value lies after the boundary.
\<close>

theorem ppm_rearm_compare_wraps:
  "tim (extmoduleSendNextFrame example_board (example_model\<lparr>ppm_last := 100\<rparr>) hw_reset) CCR2
     = 4294963396
   \<and> \<not> tim (extmoduleSendNextFrame example_board (example_model\<lparr>ppm_last := 100\<rparr>) hw_reset)
         CCR2 < ppm_last (example_model\<lparr>ppm_last := 100\<rparr>)"
  by (simp add: extmoduleSendNextFrame_def sendNextFrame_PPM_regs example_model_def)

subsection \<open>The transfer-complete interrupt\<close>

text \<open>
  Claim C9. When the transfer-complete flag is not set the handler changes nothing. When
  the interrupt is pending and the protocol is PPM, it clears the pending flag, clears the
  timer's CC2 flag and sets the CC2 interrupt enable, and changes nothing else. When the
  interrupt is pending and the protocol is any other, it clears the pending flag only:
  every timer register, \<^verbatim>\<open>DIER\<close> included, keeps its value.
\<close>

theorem EXTMODULE_TIMER_DMA_IRQHandler_effect:
  "(\<not> dma_tc_flag s \<longrightarrow> EXTMODULE_TIMER_DMA_IRQHandler m s = s)
   \<and> (DMA_GetITStatus_TC s \<and> protocol m = PROTOCOL_CHANNELS_PPM \<longrightarrow>
        EXTMODULE_TIMER_DMA_IRQHandler m s =
          s\<lparr>dma_tc_flag := False,
            tim := (tim s)(SR := tim s SR AND NOT TIM_SR_CC2IF,
                           DIER := tim s DIER OR TIM_DIER_CC2IE),
            writes := writes s @ [TIM_W SR (tim s SR AND NOT TIM_SR_CC2IF),
                                  TIM_W DIER (tim s DIER OR TIM_DIER_CC2IE)]\<rparr>
        \<and> tim (EXTMODULE_TIMER_DMA_IRQHandler m s) SR AND TIM_SR_CC2IF = 0
        \<and> tim (EXTMODULE_TIMER_DMA_IRQHandler m s) DIER AND TIM_DIER_CC2IE = TIM_DIER_CC2IE)
   \<and> (DMA_GetITStatus_TC s \<and> protocol m \<noteq> PROTOCOL_CHANNELS_PPM \<longrightarrow>
        EXTMODULE_TIMER_DMA_IRQHandler m s = s\<lparr>dma_tc_flag := False\<rparr>
        \<and> tim (EXTMODULE_TIMER_DMA_IRQHandler m s) = tim s)"
proof -
  have "(x OR c) AND c = c" for x c :: u32
    by (rule bit_eqI) (auto simp add: bit_simps)
  then show ?thesis
    by (cases "protocol m")
      (simp_all add: EXTMODULE_TIMER_DMA_IRQHandler_def DMA_GetITStatus_TC_def
        DMA_ClearITPendingBit_TC_def Let_def tim_write_def)
qed

theorem EXTMODULE_TIMER_DMA_IRQHandler_effect_witness:
  "EXTMODULE_TIMER_DMA_IRQHandler example_model hw_busy = hw_busy
   \<and> tim (EXTMODULE_TIMER_DMA_IRQHandler example_model (hw_busy\<lparr>dma_tc_flag := True\<rparr>)) DIER
       = TIM_DIER_CC2IE
   \<and> EXTMODULE_TIMER_DMA_IRQHandler (example_model\<lparr>protocol := PROTOCOL_CHANNELS_SBUS\<rparr>)
        (hw_busy\<lparr>dma_tc_flag := True\<rparr>) = hw_busy"
  using EXTMODULE_TIMER_DMA_IRQHandler_effect [of hw_busy example_model]
    EXTMODULE_TIMER_DMA_IRQHandler_effect [of "hw_busy\<lparr>dma_tc_flag := True\<rparr>" example_model]
    EXTMODULE_TIMER_DMA_IRQHandler_effect [of "hw_busy\<lparr>dma_tc_flag := True\<rparr>"
      "example_model\<lparr>protocol := PROTOCOL_CHANNELS_SBUS\<rparr>"]
  by (simp add: DMA_GetITStatus_TC_def example_model_def hw_busy_def hw_reset_def bits)

subsection \<open>The bit-banged byte\<close>

text \<open>
  A wait that starts \<open>d\<close> ticks after \<open>time\<close> ends exactly \<open>n\<close> ticks after
  \<open>time\<close>, whatever the counter's value, also across its wrap.
\<close>

lemma wait_ticks_from:
  "getTmr2MHz s = time + of_nat d \<Longrightarrow> d \<le> unat n \<Longrightarrow>
   wait_ticks time n s = s\<lparr>tmr2MHz := tmr2MHz s + (unat n - d)\<rparr>"
proof (induction "unat n - d" arbitrary: d s)
  case 0
  then have "d = unat n" by simp
  then have "getTmr2MHz s - time = n" using 0 by simp
  then show ?case using \<open>d = unat n\<close>
    by (subst wait_ticks.simps) simp
next
  case (Suc k)
  then have dlt: "d < unat n" by simp
  have "unat n < 2 ^ 16" using unsigned_less [of n] by simp
  then have "unat (of_nat d :: u16) = d" using dlt by (simp add: unat_of_nat)
  then have lt: "getTmr2MHz s - time < n"
    using Suc.prems dlt by (simp add: word_less_nat_alt)
  have step: "getTmr2MHz (s\<lparr>tmr2MHz := tmr2MHz s + 1\<rparr>) = time + of_nat (Suc d)"
    using Suc.prems by (simp add: getTmr2MHz_def)
  have "wait_ticks time n (s\<lparr>tmr2MHz := tmr2MHz s + 1\<rparr>) =
        (s\<lparr>tmr2MHz := tmr2MHz s + 1\<rparr>)\<lparr>tmr2MHz := tmr2MHz (s\<lparr>tmr2MHz := tmr2MHz s + 1\<rparr>) + (unat n - Suc d)\<rparr>"
    using Suc.hyps(2) dlt by (intro Suc.hyps(1) step) simp_all
  then show ?case using lt dlt
    by (subst wait_ticks.simps) simp
qed

lemma wait_ticks_sync:
  "getTmr2MHz s = time \<Longrightarrow> wait_ticks time n s = s\<lparr>tmr2MHz := tmr2MHz s + unat n\<rparr>"
  using wait_ticks_from [of s time 0 n] by simp

lemma upt_shift: "map f [0..<Suc n] = f 0 # map (\<lambda>j. f (Suc j)) [0..<n]"
  by (simp add: upt_conv_Cons map_Suc_upt [symmetric] del: upt_Suc)

lemma and_1_neq_0: "(w AND 1 \<noteq> 0) = bit w 0" for w :: u8
  by (simp add: and_one_eq bit_0 even_iff_mod_2_eq_zero)

lemma send_bits_run:
  "getTmr2MHz s = time \<Longrightarrow>
   send_bits i byte time s =
     (time + of_nat (35 * (8 - i)),
      s\<lparr>tx_level := (if i < 8 then \<not> bit byte (7 - i) else tx_level s),
        tmr2MHz := tmr2MHz s + 35 * (8 - i),
        trace := trace s @ map (\<lambda>j. (tmr2MHz s + 35 * j, bit_event (bit byte j))) [0..<8 - i]\<rparr>)"
proof (induction i byte time s rule: send_bits.induct)
  case (1 i byte time s0)
  show ?case
  proof (cases "i < 8")
    case False
    then show ?thesis by (subst send_bits.simps) simp
  next
    case True
    define s1 where "s1 = (if byte AND 1 \<noteq> 0 then GPIO_ResetBits s0 else GPIO_SetBits s0)"
    define s2 where "s2 = wait_ticks time 35 s1"
    have s1: "s1 = s0\<lparr>tx_level := \<not> bit byte 0,
                     trace := trace s0 @ [(tmr2MHz s0, bit_event (bit byte 0))]\<rparr>"
      by (simp add: s1_def GPIO_ResetBits_def GPIO_SetBits_def bit_event_def and_1_neq_0)
    have "getTmr2MHz s1 = time" using "1.prems" by (simp add: s1 getTmr2MHz_def)
    then have s2: "s2 = s1\<lparr>tmr2MHz := tmr2MHz s1 + 35\<rparr>"
      unfolding s2_def by (simp add: wait_ticks_sync)
    have sync: "getTmr2MHz s2 = time + 35"
      using "1.prems" by (simp add: s2 s1 getTmr2MHz_def)
    have IH: "send_bits (i + 1) (drop_bit 1 byte) (time + 35) s2 =
      (time + 35 + of_nat (35 * (8 - (i + 1))),
       s2\<lparr>tx_level := (if i + 1 < 8 then \<not> bit (drop_bit 1 byte) (7 - (i + 1)) else tx_level s2),
         tmr2MHz := tmr2MHz s2 + 35 * (8 - (i + 1)),
         trace := trace s2 @
           map (\<lambda>j. (tmr2MHz s2 + 35 * j, bit_event (bit (drop_bit 1 byte) j))) [0..<8 - (i + 1)]\<rparr>)"
      using "1.IH" [OF True s1_def refl s2_def sync] .
    have unf: "send_bits i byte time s0 = send_bits (i + 1) (drop_bit 1 byte) (time + 35) s2"
      using True by (subst send_bits.simps) (simp add: Let_def s1_def s2_def)
    have n: "8 - i = Suc (8 - (i + 1))" using True by simp
    have lvl: "(if i + 1 < 8 then \<not> bit (drop_bit 1 byte) (7 - (i + 1)) else tx_level s2)
               = (\<not> bit byte (7 - i))"
    proof (cases "i + 1 < 8")
      case True
      then have "Suc (7 - (i + 1)) = 7 - i" by simp
      then show ?thesis using True by (simp add: bit_drop_bit_eq)
    next
      case False
      then have "7 - i = 0" using True by simp
      then show ?thesis using False by (simp add: s2 s1)
    qed
    show ?thesis
      unfolding unf IH lvl
      using True
      by (simp add: n upt_shift s2 s1 bit_drop_bit_eq algebra_simps del: upt_Suc)
  qed
qed

lemma extmoduleSendInvertedByte_run:
  "extmoduleSendInvertedByte byte s =
     s\<lparr>irq_enabled := True, tx_level := False, tmr2MHz := tmr2MHz s + 348,
       trace := trace s @ [(tmr2MHz s, Irq_disable), (tmr2MHz s, Pin_high)] @
         map (\<lambda>j. (tmr2MHz s + 34 + 35 * j, bit_event (bit byte j))) [0..<8] @
         [(tmr2MHz s + 314, Pin_low), (tmr2MHz s + 314, Irq_enable)]\<rparr>"
proof -
  define s1 where "s1 = disable_irq s"
  define time where "time = getTmr2MHz s1"
  define s2 where "s2 = GPIO_SetBits s1"
  define s3 where "s3 = wait_ticks time 34 s2"
  have s2: "s2 = s\<lparr>irq_enabled := False, tx_level := True,
      trace := trace s @ [(tmr2MHz s, Irq_disable), (tmr2MHz s, Pin_high)]\<rparr>"
    by (simp add: s2_def s1_def disable_irq_def GPIO_SetBits_def)
  have "getTmr2MHz s2 = time"
    by (simp add: s2 time_def s1_def disable_irq_def getTmr2MHz_def)
  then have s3: "s3 = s2\<lparr>tmr2MHz := tmr2MHz s2 + 34\<rparr>"
    unfolding s3_def by (simp add: wait_ticks_sync)
  have sync3: "getTmr2MHz s3 = time + 34"
    by (simp add: s3 s2 time_def s1_def disable_irq_def getTmr2MHz_def)
  note bits = send_bits_run [OF sync3, of 0 byte]
  define s4 where "s4 = snd (send_bits 0 byte (time + 34) s3)"
  have t2: "fst (send_bits 0 byte (time + 34) s3) = time + 314"
    by (simp add: bits)
  have s4: "s4 = s3\<lparr>tx_level := \<not> bit byte 7, tmr2MHz := tmr2MHz s3 + 280,
      trace := trace s3 @ map (\<lambda>j. (tmr2MHz s3 + 35 * j, bit_event (bit byte j))) [0..<8]\<rparr>"
    by (simp add: s4_def bits)
  define s6 where "s6 = enable_irq (GPIO_ResetBits s4)"
  have sync6: "getTmr2MHz s6 = time + 314"
    by (simp add: s6_def s4 s3 s2 time_def s1_def disable_irq_def enable_irq_def
        GPIO_ResetBits_def getTmr2MHz_def)
  have "extmoduleSendInvertedByte byte s =
        wait_ticks (fst (send_bits 0 byte (time + 34) s3)) 34 s6"
    unfolding extmoduleSendInvertedByte_def Let_def s6_def s4_def s3_def s2_def time_def s1_def
    by (simp add: case_prod_beta)
  also have "\<dots> = wait_ticks (time + 314) 34 s6"
    by (simp only: t2)
  also have "\<dots> = s6\<lparr>tmr2MHz := tmr2MHz s6 + 34\<rparr>"
    using sync6 by (simp add: wait_ticks_sync)
  also have "\<dots> = s\<lparr>irq_enabled := True, tx_level := False, tmr2MHz := tmr2MHz s + 348,
       trace := trace s @ [(tmr2MHz s, Irq_disable), (tmr2MHz s, Pin_high)] @
         map (\<lambda>j. (tmr2MHz s + 34 + 35 * j, bit_event (bit byte j))) [0..<8] @
         [(tmr2MHz s + 314, Pin_low), (tmr2MHz s + 314, Irq_enable)]\<rparr>"
    by (simp add: s6_def s4 s3 s2 enable_irq_def GPIO_ResetBits_def del: upt_Suc)
  finally show ?thesis .
qed

lemma new_trace_run:
  "new_trace s (extmoduleSendInvertedByte byte s) =
     [(tmr2MHz s, Irq_disable), (tmr2MHz s, Pin_high)] @
     map (\<lambda>j. (tmr2MHz s + 34 + 35 * j, bit_event (bit byte j))) [0..<8] @
     [(tmr2MHz s + 314, Pin_low), (tmr2MHz s + 314, Irq_enable)]"
  by (simp add: new_trace_def extmoduleSendInvertedByte_run del: upt_Suc)

lemma pin_events_bits:
  "pin_events (map (\<lambda>j. (f j, bit_event (g j))) js) = map (\<lambda>j. (f j, bit_event (g j))) js"
  by (induction js) (simp_all add: pin_events_def bit_event_def)

lemma irq_events_bits:
  "irq_events (map (\<lambda>j. (f j, bit_event (g j))) js) = []"
  by (induction js) (simp_all add: irq_events_def bit_event_def)

lemma pin_events_append: "pin_events (xs @ ys) = pin_events xs @ pin_events ys"
  by (simp add: pin_events_def)

lemma irq_events_append: "irq_events (xs @ ys) = irq_events xs @ irq_events ys"
  by (simp add: irq_events_def)

lemma pin_events_run:
  "pin_events (new_trace s (extmoduleSendInvertedByte byte s)) =
     (tmr2MHz s, Pin_high) #
     map (\<lambda>j. (tmr2MHz s + 34 + 35 * j, bit_event (bit byte j))) [0..<8] @
     [(tmr2MHz s + 314, Pin_low)]"
  unfolding new_trace_run pin_events_append pin_events_bits
  by (simp add: pin_events_def)

text \<open>
  Claim C4. Measured on the 2 MHz tick counter, the routine puts on the pin: the start
  condition (high) at the tick of the call, then the eight bits of the byte, least
  significant first and inverted (a 1 drives the pin low, a 0 high), the first one 34
  ticks after the start and each held 35 ticks, then the stop condition (low). From the
  start condition to the stop condition 34 + 8 * 35 ticks pass, which is 9 * 35 - 1:
  nine bit times less one tick. The call returns after holding the stop level 34 ticks.
\<close>

theorem extmoduleSendInvertedByte_waveform:
  "pin_events (new_trace s (extmoduleSendInvertedByte byte s)) =
     (tmr2MHz s, Pin_high) #
     map (\<lambda>j. (tmr2MHz s + 34 + 35 * j, if bit byte j then Pin_low else Pin_high)) [0..<8] @
     [(tmr2MHz s + 34 + 8 * 35, Pin_low)]
   \<and> fst (last (pin_events (new_trace s (extmoduleSendInvertedByte byte s))))
       - fst (hd (pin_events (new_trace s (extmoduleSendInvertedByte byte s)))) = 9 * 35 - 1
   \<and> tmr2MHz (extmoduleSendInvertedByte byte s) =
       fst (last (pin_events (new_trace s (extmoduleSendInvertedByte byte s)))) + 34"
  unfolding pin_events_run
  by (simp add: extmoduleSendInvertedByte_run bit_event_def del: upt_Suc)

text \<open>
  The byte \<open>0b10110010\<close>, sent while the 16-bit counter wraps: the levels are
  high (start), then high, low, high, high, low, low, high, low for the bits
  0, 1, 0, 0, 1, 1, 0, 1, then low (stop).
\<close>

theorem extmoduleSendInvertedByte_waveform_0xB2:
  "pin_events (new_trace \<lparr>irq_enabled = True, tx_level = False, tmr2MHz = 65530, trace = []\<rparr>
      (extmoduleSendInvertedByte 0xB2
        \<lparr>irq_enabled = True, tx_level = False, tmr2MHz = 65530, trace = []\<rparr>)) =
    [(65530, Pin_high), (65564, Pin_high), (65599, Pin_low), (65634, Pin_high),
     (65669, Pin_high), (65704, Pin_low), (65739, Pin_low), (65774, Pin_high),
     (65809, Pin_low), (65844, Pin_low)]"
  using extmoduleSendInvertedByte_waveform
    [of "\<lparr>irq_enabled = True, tx_level = False, tmr2MHz = 65530, trace = []\<rparr>" "0xB2"]
  by (simp add: upt_rec)

text \<open>
  Claim C8. The first thing the routine does is to disable interrupts, at the tick of the
  call and before the start condition. Everything it does next is an edge on the pin: the
  start condition, the eight data bits and the stop condition, ten edges. Interrupts are
  enabled again as the last action, 34 + 8 * 35 ticks after the call, when the last data
  bit has been held its 35 ticks; nothing else changes the interrupt enable. The call
  then waits the 34 ticks of the stop bit and returns, with interrupts enabled.
\<close>

theorem extmoduleSendInvertedByte_irq_window:
  "new_trace s (extmoduleSendInvertedByte byte s) =
     (tmr2MHz s, Irq_disable) # pin_events (new_trace s (extmoduleSendInvertedByte byte s)) @
     [(tmr2MHz s + 34 + 8 * 35, Irq_enable)]
   \<and> length (pin_events (new_trace s (extmoduleSendInvertedByte byte s))) = 10
   \<and> irq_events (new_trace s (extmoduleSendInvertedByte byte s)) =
       [(tmr2MHz s, Irq_disable), (tmr2MHz s + 34 + 8 * 35, Irq_enable)]
   \<and> tmr2MHz (extmoduleSendInvertedByte byte s) = (tmr2MHz s + 34 + 8 * 35) + 34
   \<and> irq_enabled (extmoduleSendInvertedByte byte s)"
proof -
  let ?s' = "extmoduleSendInvertedByte byte s"
  have "irq_events (new_trace s ?s') =
          [(tmr2MHz s, Irq_disable), (tmr2MHz s + 34 + 8 * 35, Irq_enable)]"
    unfolding new_trace_run irq_events_append irq_events_bits
    by (simp add: irq_events_def)
  moreover have "new_trace s ?s' =
           (tmr2MHz s, Irq_disable) # pin_events (new_trace s ?s') @
           [(tmr2MHz s + 34 + 8 * 35, Irq_enable)]"
    unfolding pin_events_run by (simp add: new_trace_run del: upt_Suc)
  moreover have "length (pin_events (new_trace s ?s')) = 10"
    unfolding pin_events_run by simp
  ultimately show ?thesis
    by (simp add: extmoduleSendInvertedByte_run)
qed

text \<open>
  Claim C10. The routine returns with interrupts enabled whatever the interrupt enable
  was at the call: the state at entry is neither saved nor restored, and the result does
  not depend on it.
\<close>

theorem extmoduleSendInvertedByte_returns_irq_enabled:
  "irq_enabled (extmoduleSendInvertedByte byte s) \<and>
   extmoduleSendInvertedByte byte (s\<lparr>irq_enabled := e\<rparr>) = extmoduleSendInvertedByte byte s"
  by (simp add: extmoduleSendInvertedByte_run)

subsection \<open>The receive interrupt\<close>

lemma usart_rx_loop_run:
  "usart_rx_loop push (USART_SR s) s =
     s\<lparr>usart_rx := dropWhile rx_flagged (usart_rx s),
       extmoduleFifo := (extmoduleFifo s)
         \<lparr>contents := foldl push (contents (extmoduleFifo s))
              (map snd (filter rx_valid (takeWhile rx_flagged (usart_rx s)))),
          errors := errors (extmoduleFifo s)
              + of_nat (length (filter rx_line_error (takeWhile rx_flagged (usart_rx s))))\<rparr>\<rparr>"
proof (induction "usart_rx s" arbitrary: s)
  case Nil
  then have "usart_rx s = []" by simp
  then show ?case
    by (subst usart_rx_loop.simps) (simp add: USART_SR_def)
next
  case (Cons r q)
  obtain st d where r: "r = (st, d)" by (cases r)
  have q: "usart_rx s = (st, d) # q" using Cons.hyps(2) r by simp
  show ?case
  proof (cases "st AND (USART_FLAG_RXNE OR USART_FLAG_ERRORS) \<noteq> 0")
    case False
    then show ?thesis
      by (subst usart_rx_loop.simps) (simp add: USART_SR_def q rx_flagged_def)
  next
    case True
    define s2 where "s2 =
      (if st AND USART_FLAG_ERRORS \<noteq> 0
       then s\<lparr>usart_rx := q, extmoduleFifo :=
              (extmoduleFifo s)\<lparr>errors := errors (extmoduleFifo s) + 1\<rparr>\<rparr>
       else s\<lparr>usart_rx := q, extmoduleFifo :=
              (extmoduleFifo s)\<lparr>contents := push (contents (extmoduleFifo s)) d\<rparr>\<rparr>)"
    have q2: "q = usart_rx s2" by (simp add: s2_def)
    have unf: "usart_rx_loop push (USART_SR s) s = usart_rx_loop push (USART_SR s2) s2"
      using True
      by (subst usart_rx_loop.simps) (simp add: USART_SR_def USART_DR_def q s2_def)
    show ?thesis
      unfolding unf Cons.hyps(1) [OF q2]
      using True
      by (simp add: q s2_def rx_flagged_def rx_valid_def rx_line_error_def)
  qed
qed

text \<open>
  Claim C7. The handler takes the pending receptions in order for as long as the status
  shows received data or a line error. A reception whose status has a line-error flag
  (overrun, noise, framing, parity) adds one to the error counter of the FIFO and is not
  pushed, so the contents of the FIFO stay as they are; a reception without error flag is
  pushed, in order of arrival, and leaves the error counter as it is.
\<close>

theorem EXTMODULE_USART_IRQHandler_errors_not_pushed:
  "EXTMODULE_USART_IRQHandler push s =
     s\<lparr>usart_rx := dropWhile rx_flagged (usart_rx s),
       extmoduleFifo := (extmoduleFifo s)
         \<lparr>contents := foldl push (contents (extmoduleFifo s))
              (map snd (filter rx_valid (takeWhile rx_flagged (usart_rx s)))),
          errors := errors (extmoduleFifo s)
              + of_nat (length (filter rx_line_error (takeWhile rx_flagged (usart_rx s))))\<rparr>\<rparr>"
  unfolding EXTMODULE_USART_IRQHandler_def by (rule usart_rx_loop_run)

text \<open>
  Four receptions, the second with a framing error and the fourth with an overrun, into
  an empty FIFO whose push appends: two bytes are stored and two errors counted.
\<close>

theorem EXTMODULE_USART_IRQHandler_example:
  "EXTMODULE_USART_IRQHandler (\<lambda>q b. q @ [b])
     \<lparr>usart_rx = [(0x20, 0x41), (0x22, 0x42), (0x20, 0x43), (0x08, 0x44)],
      extmoduleFifo = \<lparr>contents = [], errors = 0\<rparr>\<rparr>
   = \<lparr>usart_rx = [], extmoduleFifo = \<lparr>contents = [0x41, 0x43], errors = 2\<rparr>\<rparr>"
  using EXTMODULE_USART_IRQHandler_errors_not_pushed
    [of "\<lambda>q b. q @ [b]"
      "\<lparr>usart_rx = [(0x20, 0x41), (0x22, 0x42), (0x20, 0x43), (0x08, 0x44)],
        extmoduleFifo = \<lparr>contents = [], errors = 0\<rparr>\<rparr>"]
  by (simp add: rx_flagged_def rx_valid_def rx_line_error_def
      USART_FLAG_RXNE_def USART_FLAG_ERRORS_def USART_FLAG_ORE_def USART_FLAG_NE_def
      USART_FLAG_FE_def USART_FLAG_PE_def)

end
